theory Spec2Isabelle
  imports Complex_Main "HOL-Library.Sublist" "HOL-Library.AList"
begin

section \<open>Values of a parsed manifest\<close>

text \<open>
  \<^verbatim>\<open>tomli.load\<close> returns a Python \<^verbatim>\<open>dict\<close> whose values are strings, integers,
  floats, booleans, dates, lists and nested dicts. A dict is an association list read with
  \<open>map_of\<close>. Floats are kept as rationals (an infinity or a NaN is truthy and not
  subscriptable, as every non-zero float is), dates as their text.
\<close>

datatype toml =
    TStr string
  | TInt int
  | TFloat rat
  | TBool bool
  | TDate string
  | TList "toml list"
  | TTable "(string \<times> toml) list"

type_synonym toml_dict = "(string \<times> toml) list"

datatype py_error =
    KeyError
  | AttributeError
  | TypeError
  | IndexError
  | ParseError
  | UnicodeDecodeError
  | TemplateError
  | SpawnError
  | CalledProcessError int
  | FileNotFoundError
  | FileExistsError
  | NotADirectoryError
  | IsADirectoryError
  | SameFileError

text \<open>Sequencing of steps that may raise: the first error ends the computation.\<close>

definition and_then :: "'e + 'a \<Rightarrow> ('a \<Rightarrow> 'e + 'b) \<Rightarrow> 'e + 'b" where
  "and_then r f = (case r of Inl e \<Rightarrow> Inl e | Inr v \<Rightarrow> f v)"

text \<open>\<^verbatim>\<open>obj.get(key)\<close> and \<^verbatim>\<open>obj.get(key, default)\<close>: only a dict has the method.\<close>

fun py_get :: "toml \<Rightarrow> string \<Rightarrow> py_error + toml option" where
  "py_get (TTable d) k = Inr (map_of d k)"
| "py_get _ k = Inl AttributeError"

definition py_get_default :: "toml \<Rightarrow> string \<Rightarrow> toml \<Rightarrow> py_error + toml" where
  "py_get_default obj k dflt =
     and_then (py_get obj k) (\<lambda>r. Inr (case r of None \<Rightarrow> dflt | Some v \<Rightarrow> v))"

text \<open>\<^verbatim>\<open>d[key]\<close> on a dict.\<close>

definition dict_item :: "toml_dict \<Rightarrow> string \<Rightarrow> py_error + toml" where
  "dict_item d k = (case map_of d k of None \<Rightarrow> Inl KeyError | Some v \<Rightarrow> Inr v)"

text \<open>\<^verbatim>\<open>obj[key]\<close> with a string key, on any value: a string or a list wants an integer.\<close>

fun py_item :: "toml \<Rightarrow> string \<Rightarrow> py_error + toml" where
  "py_item (TTable d) k = dict_item d k"
| "py_item _ k = Inl TypeError"

text \<open>Python's truth value of a manifest value.\<close>

fun truthy :: "toml \<Rightarrow> bool" where
  "truthy (TStr s) = (s \<noteq> [])"
| "truthy (TInt i) = (i \<noteq> 0)"
| "truthy (TFloat r) = (r \<noteq> 0)"
| "truthy (TBool b) = b"
| "truthy (TDate s) = True"
| "truthy (TList xs) = (xs \<noteq> [])"
| "truthy (TTable d) = (d \<noteq> [])"

text \<open>\<^verbatim>\<open>obj[0]\<close>: the first element of a list, the first character of a string; a dict
  with string keys has no key \<^verbatim>\<open>0\<close>; the other values are not subscriptable.\<close>

fun py_first :: "toml \<Rightarrow> py_error + toml" where
  "py_first (TList []) = Inl IndexError"
| "py_first (TList (x # xs)) = Inr x"
| "py_first (TStr []) = Inl IndexError"
| "py_first (TStr (c # cs)) = Inr (TStr [c])"
| "py_first (TTable d) = Inl KeyError"
| "py_first _ = Inl TypeError"

section \<open>Pure paths\<close>

text \<open>
  \<^verbatim>\<open>pathlib.Path(s)\<close> on POSIX: the anchor is \<^verbatim>\<open>/\<close> (or \<^verbatim>\<open>//\<close> for exactly two leading
  slashes), the parts are the components between slashes without the empty ones and
  without \<^verbatim>\<open>.\<close>; \<^verbatim>\<open>..\<close> is kept. Only a string makes a path here.
\<close>

fun split_sep :: "char \<Rightarrow> string \<Rightarrow> string list" where
  "split_sep c [] = [[]]"
| "split_sep c (x # xs) =
     (if x = c then [] # split_sep c xs
      else (case split_sep c xs of [] \<Rightarrow> [[x]] | w # ws \<Rightarrow> (x # w) # ws))"

fun join_sep :: "string \<Rightarrow> string list \<Rightarrow> string" where
  "join_sep sep [] = []"
| "join_sep sep [w] = w"
| "join_sep sep (w # v # ws) = w @ sep @ join_sep sep (v # ws)"

record pure_path =
  anchor :: string
  parts :: "string list"

definition path_root :: "string \<Rightarrow> string" where
  "path_root s =
     (if prefix ''//'' s \<and> \<not> prefix ''///'' s then ''//''
      else if prefix ''/'' s then ''/'' else [])"

definition Path :: "string \<Rightarrow> pure_path" where
  "Path s = \<lparr>anchor = path_root s,
             parts = filter (\<lambda>w. w \<noteq> [] \<and> w \<noteq> ''.'') (split_sep CHR ''/'' s)\<rparr>"

text \<open>\<^verbatim>\<open>Path(v)\<close> raises \<^verbatim>\<open>TypeError\<close> unless \<open>v\<close> is a string.\<close>

definition str_of :: "toml \<Rightarrow> py_error + string" where
  "str_of v = (case v of TStr s \<Rightarrow> Inr s | _ \<Rightarrow> Inl TypeError)"

definition parent :: "pure_path \<Rightarrow> pure_path" where
  "parent p = p\<lparr>parts := butlast (parts p)\<rparr>"

definition joinpath :: "pure_path \<Rightarrow> string list \<Rightarrow> pure_path" where
  "joinpath p ws = p\<lparr>parts := parts p @ ws\<rparr>"

definition path_str :: "pure_path \<Rightarrow> string" where
  "path_str p =
     (if anchor p = [] \<and> parts p = [] then ''.'' else anchor p @ join_sep ''/'' (parts p))"

section \<open>Resolving a configuration\<close>

text \<open>
  \<^verbatim>\<open>DocConfig\<close> is the dict literal that \<^verbatim>\<open>_load_config\<close> returns: its six keys are
  always set, so it is a record. \<^verbatim>\<open>derived\<close> is filled key by key and read by key, so it
  stays a dict. \<^verbatim>\<open>doc_src\<close> is a string in every returned configuration, because
  \<^verbatim>\<open>Path(src_dir)\<close> has accepted it.
\<close>

record doc_config =
  pyproject_path :: string
  doc_src :: string
  doc_dest :: toml
  pyproject_data :: toml_dict
  py_modules :: toml
  derived :: toml_dict

definition unknown_contact :: toml where
  "unknown_contact = TTable [(''name'', TStr ''unknown''), (''email'', TStr ''unknown'')]"

text \<open>
  \<^verbatim>\<open>_load_config\<close> after the file is read and parsed, in the order Python evaluates it.
  The default of \<^verbatim>\<open>magdocs_config.get("py_modules", [toml["project"]["name"]])\<close> is an
  argument, so it is evaluated before \<^verbatim>\<open>get\<close> is called.
\<close>

definition load_config :: "string \<Rightarrow> toml_dict \<Rightarrow> py_error + doc_config option" where
  "load_config pyproject toml =
     and_then (py_get (case map_of toml ''tool'' of None \<Rightarrow> TTable [] | Some t \<Rightarrow> t) ''doccer'')
       (\<lambda>section. case section of
          None \<Rightarrow> Inr None
        | Some magdocs_config \<Rightarrow>
            and_then (py_get_default magdocs_config ''doc_src'' (TStr ''docs/src'')) (\<lambda>src_dir.
            and_then (dict_item toml ''project'') (\<lambda>project.
            and_then (py_get project ''authors'') (\<lambda>authors.
            and_then (case authors of
                        None \<Rightarrow> Inr unknown_contact
                      | Some a \<Rightarrow> if truthy a then py_first a else Inr unknown_contact) (\<lambda>author.
            and_then (str_of src_dir) (\<lambda>src.
            and_then (py_get_default magdocs_config ''doc_dest'' (TStr ''.'')) (\<lambda>dest.
            and_then (py_item project ''name'') (\<lambda>name.
            and_then (py_get_default magdocs_config ''py_modules'' (TList [name])) (\<lambda>modules.
              Inr (Some \<lparr>pyproject_path = pyproject,
                         doc_src = src,
                         doc_dest = dest,
                         pyproject_data = toml,
                         py_modules = modules,
                         derived =
                           [(''author'', author),
                            (''build_dir'',
                               TStr (path_str (joinpath (parent (Path src)) [''build''])))
                           ,(''deploy_dir'', TStr ''.'')]\<rparr>))))))))))"

section \<open>The file system\<close>

text \<open>
  The file system is a table from resolved paths (the components from the root) to nodes,
  in the order a directory scan lists them; the root is always a directory. A pure path
  is resolved against the working directory of the process. Resolution is by components:
  symbolic links and permissions are not part of the model, and a \<^verbatim>\<open>..\<close> component is
  not interpreted.
\<close>

datatype node = File string | Dir

type_synonym fpath = "string list"

type_synonym filesys = "(fpath \<times> node) list"

definition node_at :: "filesys \<Rightarrow> fpath \<Rightarrow> node option" where
  "node_at fs p = (if p = [] then Some Dir else map_of fs p)"

definition fs_key :: "fpath \<Rightarrow> pure_path \<Rightarrow> fpath" where
  "fs_key wd p = (if anchor p = [] then wd @ parts p else parts p)"

text \<open>Steps that change a state and may raise; the state reached is kept in both cases.\<close>

definition then_io ::
  "('s \<Rightarrow> (py_error + 'a) \<times> 's) \<Rightarrow> ('a \<Rightarrow> 's \<Rightarrow> (py_error + 'b) \<times> 's) \<Rightarrow>
     's \<Rightarrow> (py_error + 'b) \<times> 's" where
  "then_io m f s = (case m s of (Inl e, s') \<Rightarrow> (Inl e, s') | (Inr v, s') \<Rightarrow> f v s')"

definition pure_io :: "py_error + 'a \<Rightarrow> 's \<Rightarrow> (py_error + 'a) \<times> 's" where
  "pure_io r s = (r, s)"

text \<open>
  \<^verbatim>\<open>os.makedirs(p, exist_ok=True)\<close>: every missing directory on the way down is
  created; a regular file in the way raises.
\<close>

fun makedirs_from :: "filesys \<Rightarrow> fpath \<Rightarrow> string list \<Rightarrow> (py_error + unit) \<times> filesys" where
  "makedirs_from fs cur [] = (Inr (), fs)"
| "makedirs_from fs cur (x # xs) =
     (case node_at fs (cur @ [x]) of
        None \<Rightarrow> makedirs_from (AList.update (cur @ [x]) Dir fs) (cur @ [x]) xs
      | Some Dir \<Rightarrow> makedirs_from fs (cur @ [x]) xs
      | Some (File content) \<Rightarrow>
          (Inl (if xs = [] then FileExistsError else NotADirectoryError), fs))"

definition makedirs :: "fpath \<Rightarrow> filesys \<Rightarrow> (py_error + unit) \<times> filesys" where
  "makedirs p fs = makedirs_from fs [] p"

text \<open>\<^verbatim>\<open>open(p, "w")\<close>: the file is created or truncated; its directory must exist.\<close>

definition open_w :: "fpath \<Rightarrow> filesys \<Rightarrow> (py_error + unit) \<times> filesys" where
  "open_w p fs =
     (if p = [] then (Inl IsADirectoryError, fs)
      else case node_at fs (butlast p) of
             None \<Rightarrow> (Inl FileNotFoundError, fs)
           | Some (File content) \<Rightarrow> (Inl NotADirectoryError, fs)
           | Some Dir \<Rightarrow>
               (case node_at fs p of
                  Some Dir \<Rightarrow> (Inl IsADirectoryError, fs)
                | _ \<Rightarrow> (Inr (), AList.update p (File []) fs)))"

definition write_text :: "fpath \<Rightarrow> string \<Rightarrow> filesys \<Rightarrow> (py_error + unit) \<times> filesys" where
  "write_text p text fs = (Inr (), AList.update p (File text) fs)"

text \<open>
  \<^verbatim>\<open>shutil.copy(src, dst)\<close>: into \<open>dst\<close> under the source's name when \<open>dst\<close> is a
  directory; the source must be a regular file other than the destination.
\<close>

definition shutil_copy :: "fpath \<Rightarrow> fpath \<Rightarrow> filesys \<Rightarrow> (py_error + unit) \<times> filesys" where
  "shutil_copy src dst fs =
     (let dst' = (if node_at fs dst = Some Dir
                  then dst @ (if src = [] then [] else [last src]) else dst)
      in if src = dst' \<and> node_at fs src \<noteq> None then (Inl SameFileError, fs)
         else case node_at fs src of
                None \<Rightarrow> (Inl FileNotFoundError, fs)
              | Some Dir \<Rightarrow> (Inl IsADirectoryError, fs)
              | Some (File content) \<Rightarrow>
                  then_io (open_w dst') (\<lambda>u. write_text dst' content) fs)"

text \<open>
  \<^verbatim>\<open>Path(base).rglob(pattern)\<close>: the entries below \<open>base\<close> that are reached through
  directories only and whose name matches, as paths relative to \<open>base\<close>. The scan is
  taken at once; \<^verbatim>\<open>rglob\<close> scans while the loop body runs, which is the same as long as
  the body does not write below \<open>base\<close>.
\<close>

definition below :: "filesys \<Rightarrow> fpath \<Rightarrow> fpath \<Rightarrow> bool" where
  "below fs base p =
     (strict_prefix base p \<and>
      list_all (\<lambda>q. node_at fs q = Some Dir) (filter (prefix base) (prefixes (butlast p))))"

definition rglob :: "filesys \<Rightarrow> fpath \<Rightarrow> (string \<Rightarrow> bool) \<Rightarrow> fpath list" where
  "rglob fs base matches =
     map (drop (length base))
       (filter (\<lambda>p. below fs base p \<and> matches (last p)) (remdups (map fst fs)))"

text \<open>\<^verbatim>\<open>shutil.rmtree\<close>, as \<^verbatim>\<open>TemporaryDirectory\<close> cleans up: it never raises.\<close>

definition rmtree :: "fpath \<Rightarrow> filesys \<Rightarrow> filesys" where
  "rmtree p fs = filter (\<lambda>(q, n). \<not> prefix p q) fs"

section \<open>The collaborators\<close>

text \<open>
  What the hook calls and the repository does not define: the working directory, the
  name \<^verbatim>\<open>tempfile\<close> picks, the manifest parser, the template engine, and the
  \<^verbatim>\<open>sphinx-build\<close> process, which sees the file system and leaves it changed.
\<close>

record completed =
  returncode :: int
  stdout :: string
  files_after :: filesys

record 'a collaborators =
  cwd :: fpath
  mkdtemp :: "filesys \<Rightarrow> py_error + string"
  tomli_load :: "string \<Rightarrow> py_error + toml_dict"
  get_template :: "string \<Rightarrow> py_error + 'a"
  render :: "'a \<Rightarrow> doc_config \<Rightarrow> py_error + string"
  run_process :: "string list \<Rightarrow> filesys \<Rightarrow> py_error + completed"

text \<open>The state of a run: the files, and every call of \<^verbatim>\<open>subprocess.run\<close> with the
  files it found.\<close>

record world =
  files :: filesys
  runs :: "(string list \<times> filesys) list"

definition on_files ::
  "(filesys \<Rightarrow> (py_error + 'a) \<times> filesys) \<Rightarrow> world \<Rightarrow> (py_error + 'a) \<times> world" where
  "on_files m w = (case m (files w) of (r, fs') \<Rightarrow> (r, w\<lparr>files := fs'\<rparr>))"

section \<open>Strings and bytes\<close>

text \<open>\<^verbatim>\<open>needle in haystack\<close> on bytes.\<close>

fun bytes_contains :: "string \<Rightarrow> string \<Rightarrow> bool" where
  "bytes_contains needle [] = (needle = [])"
| "bytes_contains needle (c # cs) = (prefix needle (c # cs) \<or> bytes_contains needle cs)"

text \<open>\<^verbatim>\<open>s.replace(old, "")\<close> for a non-empty \<open>old\<close>.\<close>

fun remove_all :: "string \<Rightarrow> string \<Rightarrow> string" where
  "remove_all old [] = []"
| "remove_all old (c # cs) =
     (if old \<noteq> [] \<and> prefix old (c # cs) then remove_all old (drop (length old - 1) cs)
      else c # remove_all old cs)"

text \<open>
  \<^verbatim>\<open>bytes.decode()\<close> raises unless the bytes are well-formed UTF-8: one to four bytes
  per character, no overlong form, no surrogate, nothing above U+10FFFF.
\<close>

definition continuation :: "nat \<Rightarrow> bool" where
  "continuation b = (128 \<le> b \<and> b \<le> 191)"

definition tail_ok :: "nat \<Rightarrow> nat \<Rightarrow> nat \<Rightarrow> nat list \<Rightarrow> bool" where
  "tail_ok lo hi k r =
     (case r of
        [] \<Rightarrow> False
      | b # r' \<Rightarrow> lo \<le> b \<and> b \<le> hi \<and> k \<le> length r' \<and> list_all continuation (take k r'))"

definition utf8_seq_len :: "nat list \<Rightarrow> nat" where
  "utf8_seq_len bs =
     (case bs of
        [] \<Rightarrow> 0
      | a # r \<Rightarrow>
          if a < 128 then 1
          else if 194 \<le> a \<and> a \<le> 223 \<and> tail_ok 128 191 0 r then 2
          else if a = 224 \<and> tail_ok 160 191 1 r then 3
          else if (225 \<le> a \<and> a \<le> 236 \<or> a = 238 \<or> a = 239) \<and> tail_ok 128 191 1 r then 3
          else if a = 237 \<and> tail_ok 128 159 1 r then 3
          else if a = 240 \<and> tail_ok 144 191 2 r then 4
          else if 241 \<le> a \<and> a \<le> 243 \<and> tail_ok 128 191 2 r then 4
          else if a = 244 \<and> tail_ok 128 143 2 r then 4
          else 0)"

fun utf8_valid :: "nat list \<Rightarrow> bool" where
  "utf8_valid bs =
     (if bs = [] then True
      else if utf8_seq_len bs = 0 then False
      else utf8_valid (drop (utf8_seq_len bs) bs))"

declare utf8_valid.simps [simp del]

definition decode :: "string \<Rightarrow> py_error + string" where
  "decode bs = (if utf8_valid (map of_char bs) then Inr bs else Inl UnicodeDecodeError)"

section \<open>The hook\<close>

text \<open>
  The lines printed by \<^verbatim>\<open>_debug_out\<close> change no state and are left out; the one
  argument of theirs that can raise, the decoding of the builder's output, is kept.
\<close>

text \<open>
  \<^verbatim>\<open>_render_template\<close>: the template is fetched, the directory made, the file opened for
  writing, and only then is the template rendered and the text written.
\<close>

definition render_template ::
  "'a collaborators \<Rightarrow> string \<Rightarrow> fpath \<Rightarrow> doc_config \<Rightarrow> filesys \<Rightarrow> (py_error + unit) \<times> filesys" where
  "render_template E template_name dest_dir config =
     then_io (pure_io (get_template E template_name)) (\<lambda>template.
     then_io (makedirs dest_dir) (\<lambda>u.
     then_io (open_w (fs_key dest_dir (Path (remove_all ''.jinja2'' template_name)))) (\<lambda>u.
     then_io (pure_io (render E template config)) (\<lambda>text.
       write_text (fs_key dest_dir (Path (remove_all ''.jinja2'' template_name))) text))))"

definition generate_sample_docs_source ::
  "'a collaborators \<Rightarrow> doc_config \<Rightarrow> filesys \<Rightarrow> (py_error + unit) \<times> filesys" where
  "generate_sample_docs_source E config =
     then_io (render_template E ''README.rst.jinja2''
                (fs_key (cwd E) (Path (doc_src config))) config) (\<lambda>u.
     then_io (render_template E ''subpage.rst.jinja2''
                (fs_key (cwd E) (joinpath (Path (doc_src config)) [''docs''])) config) (\<lambda>u.
     then_io (render_template E ''conf.py.jinja2''
                (fs_key (cwd E) (Path (doc_src config))) config) (\<lambda>u.
     render_template E ''Makefile.jinja2''
                (fs_key (cwd E) (Path (doc_src config))) config)))"

text \<open>
  \<^verbatim>\<open>_build_with_sphinx\<close>: \<^verbatim>\<open>check=True\<close> turns a non-zero exit status into an
  exception, and the debug line decodes the captured output before the result is computed.
\<close>

definition sphinx_cmd :: "doc_config \<Rightarrow> string \<Rightarrow> string list" where
  "sphinx_cmd config build_dir = [''sphinx-build'', ''-b'', ''rst'', doc_src config, build_dir]"

definition build_with_sphinx ::
  "'a collaborators \<Rightarrow> doc_config \<Rightarrow> world \<Rightarrow> (py_error + bool) \<times> world" where
  "build_with_sphinx E config =
     then_io (pure_io (and_then (dict_item (derived config) ''build_dir'') str_of)) (\<lambda>build_dir w.
       case run_process E (sphinx_cmd config build_dir) (files w) of
         Inl e \<Rightarrow> (Inl e, w\<lparr>runs := runs w @ [(sphinx_cmd config build_dir, files w)]\<rparr>)
       | Inr sphinx_proc \<Rightarrow>
           then_io (pure_io (if returncode sphinx_proc = 0 then Inr ()
                             else Inl (CalledProcessError (returncode sphinx_proc)))) (\<lambda>u.
           then_io (pure_io (decode (stdout sphinx_proc))) (\<lambda>shown.
             pure_io (Inr (bytes_contains ''writing output'' (stdout sphinx_proc)))))
             (w\<lparr>files := files_after sphinx_proc,
                runs := runs w @ [(sphinx_cmd config build_dir, files w)]\<rparr>))"

text \<open>\<^verbatim>\<open>_deploy_docs\<close>: every match of \<^verbatim>\<open>*.rst\<close> below the build directory is copied
  to the same relative path below the deploy directory.\<close>

fun copy_each :: "fpath \<Rightarrow> fpath \<Rightarrow> fpath list \<Rightarrow> filesys \<Rightarrow> (py_error + unit) \<times> filesys" where
  "copy_each b d [] fs = (Inr (), fs)"
| "copy_each b d (rel # rels) fs =
     (case shutil_copy (b @ rel) (d @ rel) fs of
        (Inl e, fs') \<Rightarrow> (Inl e, fs')
      | (Inr u, fs') \<Rightarrow> copy_each b d rels fs')"

definition is_rst :: "string \<Rightarrow> bool" where
  "is_rst name = suffix ''.rst'' name"

definition deploy_docs ::
  "'a collaborators \<Rightarrow> doc_config \<Rightarrow> filesys \<Rightarrow> (py_error + unit) \<times> filesys" where
  "deploy_docs E config =
     then_io (pure_io (and_then (dict_item (derived config) ''deploy_dir'') str_of)) (\<lambda>deploy_dir.
     then_io (pure_io (and_then (dict_item (derived config) ''build_dir'') str_of)) (\<lambda>build_dir fs.
       copy_each (fs_key (cwd E) (Path build_dir)) (fs_key (cwd E) (Path deploy_dir))
         (rglob fs (fs_key (cwd E) (Path build_dir)) is_rst) fs))"

text \<open>
  The body of the loop of \<^verbatim>\<open>precommit_hook\<close>: a temporary directory is made and becomes
  the build directory, the sample sources are generated when the source directory does
  not exist, the documentation is built and deployed, and the temporary directory is
  removed however the body ends. The value \<^verbatim>\<open>_build_with_sphinx\<close> returns is not bound.
\<close>

definition with_build_dir :: "string \<Rightarrow> doc_config \<Rightarrow> doc_config" where
  "with_build_dir tmpdir config =
     config\<lparr>derived := AList.update ''build_dir'' (TStr tmpdir) (derived config)\<rparr>"

definition hook_steps :: "'a collaborators \<Rightarrow> doc_config \<Rightarrow> world \<Rightarrow> (py_error + unit) \<times> world" where
  "hook_steps E config =
     then_io (\<lambda>w. if node_at (files w) (fs_key (cwd E) (Path (doc_src config))) \<noteq> None
                   then (Inr (), w)
                   else on_files (generate_sample_docs_source E config) w) (\<lambda>u.
     then_io (build_with_sphinx E config) (\<lambda>changed.
     on_files (deploy_docs E config)))"

definition process_config :: "'a collaborators \<Rightarrow> doc_config \<Rightarrow> world \<Rightarrow> (py_error + unit) \<times> world" where
  "process_config E config w =
     (case mkdtemp E (files w) of
        Inl e \<Rightarrow> (Inl e, w)
      | Inr tmpdir \<Rightarrow>
          (case hook_steps E (with_build_dir tmpdir config)
                  (w\<lparr>files := AList.update (fs_key (cwd E) (Path tmpdir)) Dir (files w)\<rparr>) of
             (r, w') \<Rightarrow> (r, w'\<lparr>files := rmtree (fs_key (cwd E) (Path tmpdir)) (files w')\<rparr>)))"

fun run_configs :: "'a collaborators \<Rightarrow> doc_config list \<Rightarrow> world \<Rightarrow> (py_error + unit) \<times> world" where
  "run_configs E [] w = (Inr (), w)"
| "run_configs E (config # configs) w =
     (case process_config E config w of
        (Inl e, w') \<Rightarrow> (Inl e, w')
      | (Inr u, w') \<Rightarrow> run_configs E configs w')"

text \<open>
  \<^verbatim>\<open>_load_configs\<close>: every \<^verbatim>\<open>pyproject.toml\<close> below the working directory is read,
  parsed and resolved; a manifest that resolves to \<^verbatim>\<open>None\<close> adds nothing to the list.
\<close>

definition load_config_file ::
  "'a collaborators \<Rightarrow> filesys \<Rightarrow> fpath \<Rightarrow> py_error + doc_config option" where
  "load_config_file E fs rel =
     (case node_at fs (cwd E @ rel) of
        None \<Rightarrow> Inl FileNotFoundError
      | Some Dir \<Rightarrow> Inl IsADirectoryError
      | Some (File content) \<Rightarrow>
          and_then (tomli_load E content) (load_config (join_sep ''/'' rel)))"

fun load_configs_from ::
  "'a collaborators \<Rightarrow> filesys \<Rightarrow> fpath list \<Rightarrow> py_error + doc_config list" where
  "load_configs_from E fs [] = Inr []"
| "load_configs_from E fs (pyproject # pyprojects) =
     and_then (load_config_file E fs pyproject) (\<lambda>found.
     and_then (load_configs_from E fs pyprojects) (\<lambda>configs.
       Inr (case found of None \<Rightarrow> configs | Some config \<Rightarrow> config # configs)))"

definition pyprojects :: "'a collaborators \<Rightarrow> filesys \<Rightarrow> fpath list" where
  "pyprojects E fs = rglob fs (cwd E) (\<lambda>name. name = ''pyproject.toml'')"

definition load_configs :: "'a collaborators \<Rightarrow> filesys \<Rightarrow> py_error + doc_config list" where
  "load_configs E fs = load_configs_from E fs (pyprojects E fs)"

definition precommit_hook :: "'a collaborators \<Rightarrow> world \<Rightarrow> (py_error + unit) \<times> world" where
  "precommit_hook E w =
     (case load_configs E (files w) of
        Inl e \<Rightarrow> (Inl e, w)
      | Inr configs \<Rightarrow> run_configs E configs w)"

section \<open>Example inputs\<close>

text \<open>
  A small repository and stand-ins for the collaborators, for the closed instances of the
  theorems below. The stand-in parser reads \<^verbatim>\<open>plain\<close> as a manifest without the
  section and \<^verbatim>\<open>doccer\<close>, optionally followed by a source directory, as one with it;
  the stand-in builder is given by its exit status and output for each command line, and
  writes \<^verbatim>\<open>index.rst\<close> into the temporary directory when it succeeds.
\<close>

definition example_parse :: "string \<Rightarrow> py_error + toml_dict" where
  "example_parse content =
     (if content = ''plain'' then Inr [(''project'', TTable [(''name'', TStr ''demo'')])]
      else if content = ''doccer''
      then Inr [(''project'', TTable [(''name'', TStr ''demo'')]),
                (''tool'', TTable [(''doccer'', TTable [])])]
      else if prefix ''doccer '' content
      then Inr [(''project'', TTable [(''name'', TStr ''demo'')]),
                (''tool'', TTable [(''doccer'', TTable [(''doc_src'', TStr (drop 7 content))])])]
      else Inl ParseError)"

definition example_env :: "(string list \<Rightarrow> int \<times> string) \<Rightarrow> string collaborators" where
  "example_env builder =
     \<lparr>cwd = [''repo''],
      mkdtemp = (\<lambda>fs. Inr ''/tmp/tmpdoc''),
      tomli_load = example_parse,
      get_template = (\<lambda>name. Inr name),
      render = (\<lambda>template config. Inr (template @ '' for '' @ doc_src config)),
      run_process = (\<lambda>cmd fs.
         Inr \<lparr>returncode = fst (builder cmd), stdout = snd (builder cmd),
              files_after =
                (if fst (builder cmd) = 0
                 then AList.update [''tmp'', ''tmpdoc'', ''index.rst''] (File ''Demo'') fs
                 else fs)\<rparr>)\<rparr>"

definition example_files :: "string \<Rightarrow> filesys" where
  "example_files manifest =
     [([''repo''], Dir),
      ([''repo'', ''pyproject.toml''], File manifest),
      ([''repo'', ''docs''], Dir),
      ([''repo'', ''docs'', ''src''], Dir),
      ([''repo'', ''docs'', ''src'', ''index.rst''], File ''Demo source''),
      ([''tmp''], Dir)]"

definition two_projects :: filesys where
  "two_projects =
     [([''repo''], Dir),
      ([''repo'', ''a''], Dir),
      ([''repo'', ''a'', ''pyproject.toml''], File ''doccer a/docs''),
      ([''repo'', ''a'', ''docs''], Dir),
      ([''repo'', ''b''], Dir),
      ([''repo'', ''b'', ''pyproject.toml''], File ''doccer b/docs''),
      ([''repo'', ''b'', ''docs''], Dir),
      ([''tmp''], Dir)]"





text \<open>
  The reading of "\<^verbatim>\<open>docs/src\<close> relative to the manifest's directory" that the
  specification gives for the default source directory, as a pure path: the manifest's
  parent joined with \<^verbatim>\<open>docs/src\<close>. It is not taken from the code; it is what
  \<open>load_config\<close> is compared with.
\<close>

definition spec_default_doc_src :: "string \<Rightarrow> pure_path" where
  "spec_default_doc_src pyproject = joinpath (parent (Path pyproject)) [''docs'', ''src'']"

section \<open>Properties of configuration resolution\<close>

lemma and_then_Inr_iff: "and_then r f = Inr y \<longleftrightarrow> (\<exists>v. r = Inr v \<and> f v = Inr y)"
  by (cases r) (simp_all add: and_then_def)

lemma and_then_simps [simp]: "and_then (Inl e) f = Inl e" "and_then (Inr v) f = f v"
  by (simp_all add: and_then_def)

lemma py_get_Inr_iff: "py_get v k = Inr r \<longleftrightarrow> (\<exists>d. v = TTable d \<and> r = map_of d k)"
  by (cases v) auto

text \<open>With the section present as a table, resolution is the rest of the function.\<close>

lemma load_config_section:
  assumes "map_of toml ''tool'' = Some (TTable t)" "map_of t ''doccer'' = Some (TTable d)"
  shows "load_config p toml =
     and_then (dict_item toml ''project'') (\<lambda>project.
       and_then (py_get project ''authors'') (\<lambda>authors.
       and_then (case authors of
                        None \<Rightarrow> Inr unknown_contact
                      | Some a \<Rightarrow> if truthy a then py_first a else Inr unknown_contact) (\<lambda>author.
       and_then (str_of (case map_of d ''doc_src'' of None \<Rightarrow> TStr ''docs/src'' | Some v \<Rightarrow> v)) (\<lambda>src.
       and_then (py_item project ''name'') (\<lambda>name.
              Inr (Some \<lparr>pyproject_path = p,
                         doc_src = src,
                         doc_dest = (case map_of d ''doc_dest'' of None \<Rightarrow> TStr ''.'' | Some v \<Rightarrow> v),
                         pyproject_data = toml,
                         py_modules = (case map_of d ''py_modules'' of None \<Rightarrow> TList [name] | Some v \<Rightarrow> v),
                         derived =
                           [(''author'', author),
                            (''build_dir'',
                               TStr (path_str (joinpath (parent (Path src)) [''build''])))
                           ,(''deploy_dir'', TStr ''.'')]\<rparr>))))))"
  using assms by (simp add: load_config_def py_get_default_def)

text \<open>A configuration is only returned when \<^verbatim>\<open>tool.doccer\<close> is a table.\<close>

lemma load_config_Some_D:
  assumes "load_config p toml = Inr (Some c)"
  shows "\<exists>t d. map_of toml ''tool'' = Some (TTable t) \<and> map_of t ''doccer'' = Some (TTable d)"
proof -
  let ?tool = "case map_of toml ''tool'' of None \<Rightarrow> TTable [] | Some t \<Rightarrow> t"
  from assms obtain sec where s1: "py_get ?tool ''doccer'' = Inr sec"
    by (auto simp: load_config_def and_then_Inr_iff)
  then obtain t where t: "?tool = TTable t" "sec = map_of t ''doccer''"
    by (auto simp: py_get_Inr_iff)
  from assms s1 obtain m where m: "sec = Some m"
    by (cases sec) (auto simp: load_config_def)
  with assms s1 obtain v where "py_get_default m ''doc_src'' (TStr ''docs/src'') = Inr v"
    by (auto simp: load_config_def and_then_Inr_iff)
  then obtain d where d: "m = TTable d"
    by (auto simp: py_get_default_def and_then_Inr_iff py_get_Inr_iff)
  from t(1) have tool: "map_of toml ''tool'' = Some (TTable t)"
    by (cases "map_of toml ''tool''") (use m t(2) in auto)
  from t(2) m d have "map_of t ''doccer'' = Some (TTable d)" by simp
  with tool show ?thesis by blast
qed

text \<open>What a returned configuration is made of.\<close>

lemma load_config_Some_E:
  assumes "load_config p toml = Inr (Some c)"
  obtains t d proj author src name where
    "map_of toml ''tool'' = Some (TTable t)" "map_of t ''doccer'' = Some (TTable d)"
    "map_of toml ''project'' = Some (TTable proj)"
    "(case map_of d ''doc_src'' of None \<Rightarrow> TStr ''docs/src'' | Some v \<Rightarrow> v) = TStr src"
    "map_of proj ''name'' = Some name"
    "c = \<lparr>pyproject_path = p,
           doc_src = src,
           doc_dest = (case map_of d ''doc_dest'' of None \<Rightarrow> TStr ''.'' | Some v \<Rightarrow> v),
           pyproject_data = toml,
           py_modules = (case map_of d ''py_modules'' of None \<Rightarrow> TList [name] | Some v \<Rightarrow> v),
           derived =
             [(''author'', author),
              (''build_dir'', TStr (path_str (joinpath (parent (Path src)) [''build''])))
             ,(''deploy_dir'', TStr ''.'')]\<rparr>"
proof -
  from load_config_Some_D [OF assms] obtain t d where
    td: "map_of toml ''tool'' = Some (TTable t)" "map_of t ''doccer'' = Some (TTable d)" by blast
  note eq = assms [unfolded load_config_section [OF td]]
  from eq obtain project where p1: "dict_item toml ''project'' = Inr project"
    by (auto simp: and_then_Inr_iff)
  from eq p1 obtain authors where p2: "py_get project ''authors'' = Inr authors"
    by (auto simp: and_then_Inr_iff)
  then obtain proj where proj: "project = TTable proj" by (auto simp: py_get_Inr_iff)
  from eq p1 p2 obtain author src name where
    rest: "str_of (case map_of d ''doc_src'' of None \<Rightarrow> TStr ''docs/src'' | Some v \<Rightarrow> v) = Inr src"
      "py_item project ''name'' = Inr name"
      "c = \<lparr>pyproject_path = p,
             doc_src = src,
             doc_dest = (case map_of d ''doc_dest'' of None \<Rightarrow> TStr ''.'' | Some v \<Rightarrow> v),
             pyproject_data = toml,
             py_modules = (case map_of d ''py_modules'' of None \<Rightarrow> TList [name] | Some v \<Rightarrow> v),
             derived =
               [(''author'', author),
                (''build_dir'', TStr (path_str (joinpath (parent (Path src)) [''build''])))
               ,(''deploy_dir'', TStr ''.'')]\<rparr>"
    by (auto simp: and_then_Inr_iff)
  from rest(1) have a: "(case map_of d ''doc_src'' of None \<Rightarrow> TStr ''docs/src'' | Some v \<Rightarrow> v) = TStr src"
    by (auto simp: str_of_def split: toml.splits)
  from p1 proj have b: "map_of toml ''project'' = Some (TTable proj)"
    by (auto simp: dict_item_def split: option.splits)
  from rest(2) proj have c: "map_of proj ''name'' = Some name"
    by (auto simp: dict_item_def split: option.splits)
  from that [OF td b a c rest(3)] show thesis .
qed

text \<open>The keys of \<^verbatim>\<open>derived\<close> in every returned configuration.\<close>

lemma load_config_derived_keys:
  assumes "load_config p toml = Inr (Some c)"
  shows "map fst (derived c) = [''author'', ''build_dir'', ''deploy_dir'']"
  using assms by (elim load_config_Some_E) simp

subsection \<open>C1: the fields of the derived record\<close>

text \<open>
  C1 says that after resolution every field of \<^verbatim>\<open>DerivedConfigData\<close> (author, build_dir,
  deploy_dir, project_name) is present. \<^verbatim>\<open>_load_config\<close> fills three keys and never
  \<^verbatim>\<open>project_name\<close>: for the manifest with an empty \<^verbatim>\<open>[tool.doccer]\<close> table and
  \<^verbatim>\<open>project.name = "demo"\<close> a configuration is returned whose derived dict has the keys
  author, build_dir and deploy_dir only, so reading \<^verbatim>\<open>derived["project_name"]\<close> fails.
\<close>

theorem derived_has_no_project_name:
  "(case load_config ''pyproject.toml''
           [(''tool'', TTable [(''doccer'', TTable [])]),
            (''project'', TTable [(''name'', TStr ''demo'')])] of
      Inr (Some c) \<Rightarrow>
        map fst (derived c) = [''author'', ''build_dir'', ''deploy_dir''] \<and>
        dict_item (derived c) ''project_name'' = Inl KeyError
    | _ \<Rightarrow> False)"
  by (simp add: load_config_def py_get_default_def dict_item_def str_of_def)

subsection \<open>C2: the default source directory\<close>

text \<open>
  C2 as stated: with the section present and no \<^verbatim>\<open>doc_src\<close> key, the resolved
  \<^verbatim>\<open>doc_src\<close> is \<^verbatim>\<open>docs/src\<close> relative to the manifest's directory. For the manifest
  \<^verbatim>\<open>sub/pyproject.toml\<close> the code returns the path \<^verbatim>\<open>docs/src\<close>, which is not
  \<^verbatim>\<open>sub/docs/src\<close>.
\<close>

theorem default_doc_src_counterexample:
  "(case load_config ''sub/pyproject.toml''
           [(''tool'', TTable [(''doccer'', TTable [])]),
            (''project'', TTable [(''name'', TStr ''demo'')])] of
      Inr (Some c) \<Rightarrow> Path (doc_src c) \<noteq> spec_default_doc_src ''sub/pyproject.toml''
    | _ \<Rightarrow> False)"
  by (simp add: load_config_def py_get_default_def dict_item_def str_of_def
      spec_default_doc_src_def Path_def path_root_def parent_def joinpath_def)

text \<open>
  C2 as amended: whenever a configuration is returned for a manifest whose section has no
  \<^verbatim>\<open>doc_src\<close> key, the resolved \<^verbatim>\<open>doc_src\<close> is the literal relative path
  \<^verbatim>\<open>docs/src\<close>, whatever the manifest's location; it is the manifest-relative path
  exactly when the manifest's path has no directory part.
\<close>

theorem default_doc_src_literal:
  assumes "load_config p toml = Inr (Some c)"
    and "map_of toml ''tool'' = Some (TTable t)"
    and "map_of t ''doccer'' = Some (TTable d)"
    and "map_of d ''doc_src'' = None"
  shows "doc_src c = ''docs/src'' \<and>
         (Path (doc_src c) = spec_default_doc_src p \<longleftrightarrow>
            anchor (Path p) = [] \<and> butlast (parts (Path p)) = [])"
proof -
  from assms(1) have src: "doc_src c = ''docs/src''"
    by (elim load_config_Some_E) (use assms(2-4) in auto)
  have "Path ''docs/src'' = spec_default_doc_src p \<longleftrightarrow>
           anchor (Path p) = [] \<and> butlast (parts (Path p)) = []"
    by (auto simp: spec_default_doc_src_def Path_def path_root_def parent_def joinpath_def)
  with src show ?thesis by simp
qed

theorem default_doc_src_literal_witness:
  "(case load_config ''sub/pyproject.toml''
           [(''tool'', TTable [(''doccer'', TTable [(''doc_dest'', TStr ''out'')])]),
            (''project'', TTable [(''name'', TStr ''demo'')])] of
      Inr (Some c) \<Rightarrow>
        doc_src c = ''docs/src'' \<and> Path (doc_src c) \<noteq> spec_default_doc_src ''sub/pyproject.toml''
    | _ \<Rightarrow> False)"
proof -
  let ?m = "[(''tool'', TTable [(''doccer'', TTable [(''doc_dest'', TStr ''out'')])]),
             (''project'', TTable [(''name'', TStr ''demo'')])]"
  let ?c = "\<lparr>pyproject_path = ''sub/pyproject.toml'', doc_src = ''docs/src'',
              doc_dest = TStr ''out'', pyproject_data = ?m,
              py_modules = TList [TStr ''demo''],
              derived = [(''author'', unknown_contact), (''build_dir'', TStr ''docs/build''),
                         (''deploy_dir'', TStr ''.'')]\<rparr>"
  have h1: "load_config ''sub/pyproject.toml'' ?m = Inr (Some ?c)"
    by (simp add: load_config_def py_get_default_def dict_item_def str_of_def
        Path_def path_root_def parent_def joinpath_def path_str_def)
  have h2: "map_of ?m ''tool'' = Some (TTable [(''doccer'', TTable [(''doc_dest'', TStr ''out'')])])"
    by simp
  have h3: "map_of [(''doccer'', TTable [(''doc_dest'', TStr ''out'')])] ''doccer'' =
              Some (TTable [(''doc_dest'', TStr ''out'')])"
    by simp
  have h4: "map_of [(''doc_dest'', TStr ''out'')] ''doc_src'' = None"
    by simp
  have "anchor (Path ''sub/pyproject.toml'') = [] \<and>
        butlast (parts (Path ''sub/pyproject.toml'')) = [] \<longleftrightarrow> False"
    by (simp add: Path_def path_root_def)
  with default_doc_src_literal [OF h1 h2 h3 h4] show ?thesis
    unfolding h1 by simp
qed

subsection \<open>C5: the module list\<close>

text \<open>
  C5 as stated: an explicit \<^verbatim>\<open>py_modules\<close> list is resolved without requiring the
  project name. The default \<^verbatim>\<open>[toml["project"]["name"]]\<close> is an argument of \<^verbatim>\<open>get\<close>
  and is evaluated first: with \<^verbatim>\<open>py_modules = ["a"]\<close> and a project table without a
  name, resolution raises the key error.
\<close>

theorem explicit_py_modules_counterexample:
  "load_config ''pyproject.toml''
     [(''tool'', TTable [(''doccer'', TTable [(''py_modules'', TList [TStr ''a''])])]),
      (''project'', TTable [])] = Inl KeyError"
  by (simp add: load_config_def py_get_default_def dict_item_def str_of_def)

text \<open>
  C5 as amended: for a manifest with the section and a project table, every returned
  configuration has the explicit \<^verbatim>\<open>py_modules\<close> value when one is given and otherwise
  the one-element list of the project's name, and the project table declares a name in
  both cases; when it declares none, resolution raises (a key error, unless the author
  or the source directory has raised a type error before), whether or not an explicit
  list is given.
\<close>

theorem py_modules_resolution:
  assumes "map_of toml ''tool'' = Some (TTable t)"
    and "map_of t ''doccer'' = Some (TTable d)"
    and "map_of toml ''project'' = Some (TTable proj)"
  shows "(\<forall>c. load_config p toml = Inr (Some c) \<longrightarrow>
            (\<exists>n. map_of proj ''name'' = Some n \<and>
                 py_modules c =
                   (case map_of d ''py_modules'' of None \<Rightarrow> TList [n] | Some v \<Rightarrow> v))) \<and>
         (map_of proj ''name'' = None \<longrightarrow>
            load_config p toml = Inl KeyError \<or> load_config p toml = Inl TypeError)"
proof (intro conjI allI impI)
  fix c assume "load_config p toml = Inr (Some c)"
  then show "\<exists>n. map_of proj ''name'' = Some n \<and>
                 py_modules c =
                   (case map_of d ''py_modules'' of None \<Rightarrow> TList [n] | Some v \<Rightarrow> v)"
    by (elim load_config_Some_E) (use assms in auto)
next
  assume noname: "map_of proj ''name'' = None"
  have first_err: "py_first a = Inl KeyError \<or> py_first a = Inl TypeError \<or> (\<exists>v. py_first a = Inr v)"
    if "truthy a" for a
    using that by (cases a rule: py_first.cases) auto
  have str_err: "str_of v = Inl TypeError \<or> (\<exists>s. str_of v = Inr s)" for v
    by (cases v) (auto simp: str_of_def)
  let ?src = "case map_of d ''doc_src'' of None \<Rightarrow> TStr ''docs/src'' | Some v \<Rightarrow> v"
  have eq: "load_config p toml =
      and_then (case map_of proj ''authors'' of
                        None \<Rightarrow> Inr unknown_contact
                      | Some a \<Rightarrow> if truthy a then py_first a else Inr unknown_contact) (\<lambda>author.
       and_then (str_of ?src) (\<lambda>src. Inl KeyError))"
    by (simp add: load_config_section [OF assms(1,2)] dict_item_def assms(3) noname)
  show "load_config p toml = Inl KeyError \<or> load_config p toml = Inl TypeError"
  proof (cases "map_of proj ''authors''")
    case None
    with eq str_err [of ?src] show ?thesis by auto
  next
    case (Some a)
    show ?thesis
    proof (cases "truthy a")
      case True
      with eq Some first_err [of a] str_err [of ?src] show ?thesis by auto
    next
      case False
      with eq Some str_err [of ?src] show ?thesis by auto
    qed
  qed
qed

theorem py_modules_resolution_witness:
  "(case load_config ''pyproject.toml''
           [(''tool'', TTable [(''doccer'', TTable [(''py_modules'', TList [TStr ''a'', TStr ''b''])])]),
            (''project'', TTable [(''name'', TStr ''demo'')])] of
      Inr (Some c) \<Rightarrow> py_modules c = TList [TStr ''a'', TStr ''b'']
    | _ \<Rightarrow> False) \<and>
   (case load_config ''pyproject.toml''
           [(''tool'', TTable [(''doccer'', TTable [])]),
            (''project'', TTable [(''name'', TStr ''demo'')])] of
      Inr (Some c) \<Rightarrow> py_modules c = TList [TStr ''demo'']
    | _ \<Rightarrow> False) \<and>
   load_config ''pyproject.toml''
     [(''tool'', TTable [(''doccer'', TTable [(''py_modules'', TList [TStr ''a'', TStr ''b''])])]),
      (''project'', TTable [(''authors'', TList [])])] = Inl KeyError"
proof -
  let ?d1 = "[(''py_modules'', TList [TStr ''a'', TStr ''b''])]"
  let ?m1 = "[(''tool'', TTable [(''doccer'', TTable ?d1)]),
              (''project'', TTable [(''name'', TStr ''demo'')])]"
  let ?m2 = "[(''tool'', TTable [(''doccer'', TTable [])]),
              (''project'', TTable [(''name'', TStr ''demo'')])]"
  let ?m3 = "[(''tool'', TTable [(''doccer'', TTable ?d1)]),
              (''project'', TTable [(''authors'', TList [])])]"
  have r1: "\<exists>c. load_config ''pyproject.toml'' ?m1 = Inr (Some c)"
    by (simp add: load_config_def py_get_default_def dict_item_def str_of_def)
  have r2: "\<exists>c. load_config ''pyproject.toml'' ?m2 = Inr (Some c)"
    by (simp add: load_config_def py_get_default_def dict_item_def str_of_def)
  have r3: "load_config ''pyproject.toml'' ?m3 \<noteq> Inl TypeError"
    by (simp add: load_config_def py_get_default_def dict_item_def str_of_def)
  have t1: "map_of ?m1 ''tool'' = Some (TTable [(''doccer'', TTable ?d1)])" by simp
  have t2: "map_of ?m2 ''tool'' = Some (TTable [(''doccer'', TTable [])])" by simp
  have t3: "map_of ?m3 ''tool'' = Some (TTable [(''doccer'', TTable ?d1)])" by simp
  have s1: "map_of [(''doccer'', TTable ?d1)] ''doccer'' = Some (TTable ?d1)" by simp
  have s2: "map_of [(''doccer'', TTable [])] ''doccer'' = Some (TTable [])" by simp
  have p1: "map_of ?m1 ''project'' = Some (TTable [(''name'', TStr ''demo'')])" by simp
  have p2: "map_of ?m2 ''project'' = Some (TTable [(''name'', TStr ''demo'')])" by simp
  have p3: "map_of ?m3 ''project'' = Some (TTable [(''authors'', TList [])])" by simp
  from r1 py_modules_resolution [OF t1 s1 p1, of "''pyproject.toml''"]
  have a: "(case load_config ''pyproject.toml'' ?m1 of
      Inr (Some c) \<Rightarrow> py_modules c = TList [TStr ''a'', TStr ''b''] | _ \<Rightarrow> False)"
    by auto
  from r2 py_modules_resolution [OF t2 s2 p2, of "''pyproject.toml''"]
  have b: "(case load_config ''pyproject.toml'' ?m2 of
      Inr (Some c) \<Rightarrow> py_modules c = TList [TStr ''demo''] | _ \<Rightarrow> False)"
    by auto
  from r3 py_modules_resolution [OF t3 s1 p3, of "''pyproject.toml''"]
  have c: "load_config ''pyproject.toml'' ?m3 = Inl KeyError"
    by auto
  from a b c show ?thesis by blast
qed

subsection \<open>C10: a section without a project table\<close>



section \<open>Properties of the hook\<close>

lemma then_io_simps [simp]:
  "m s = (Inl e, s') \<Longrightarrow> then_io m f s = (Inl e, s')"
  "m s = (Inr v, s') \<Longrightarrow> then_io m f s = f v s'"
  by (simp_all add: then_io_def)

lemma pure_io_simp [simp]: "pure_io r s = (r, s)"
  by (simp add: pure_io_def)



lemma load_config_without_section:
  assumes "map_of toml ''tool'' = None \<or>
           (\<exists>t. map_of toml ''tool'' = Some (TTable t) \<and> map_of t ''doccer'' = None)"
  shows "load_config p toml = Inr None"
  using assms by (auto simp: load_config_def)

text \<open>A \<^verbatim>\<open>tool\<close> entry that is not a table is not a missing section: \<^verbatim>\<open>get\<close> fails.\<close>

lemma load_config_tool_not_table:
  assumes "map_of toml ''tool'' = Some v" and "\<forall>t. v \<noteq> TTable t"
  shows "load_config p toml = Inl AttributeError"
  using assms by (cases v) (simp_all add: load_config_def)

lemma load_configs_from_skip:
  assumes "load_config_file E fs rel = Inr None"
  shows "load_configs_from E fs (ps1 @ rel # ps2) = load_configs_from E fs (ps1 @ ps2)"
proof (induction ps1)
  case Nil
  from assms show ?case
    by (cases "load_configs_from E fs ps2") simp_all
next
  case (Cons a ps1)
  then show ?case by simp
qed

text \<open>Every configuration in the list comes from a manifest with the section.\<close>

lemma load_configs_from_sections:
  "load_configs_from E fs ps = Inr configs \<Longrightarrow> config \<in> set configs \<Longrightarrow>
     \<exists>t d. map_of (pyproject_data config) ''tool'' = Some (TTable t) \<and>
           map_of t ''doccer'' = Some (TTable d)"
proof (induction ps arbitrary: configs)
  case Nil
  then show ?case by simp
next
  case (Cons a ps)
  from Cons.prems(1) obtain found rest where
    f: "load_config_file E fs a = Inr found" and r: "load_configs_from E fs ps = Inr rest"
    and c: "configs = (case found of None \<Rightarrow> rest | Some c \<Rightarrow> c # rest)"
    by (auto simp: and_then_Inr_iff)
  show ?case
  proof (cases "config \<in> set rest")
    case True
    with Cons.IH [OF r] show ?thesis by blast
  next
    case False
    with c Cons.prems(2) have found: "found = Some config"
      by (cases found) auto
    from f found obtain toml where "load_config (join_sep ''/'' a) toml = Inr (Some config)"
      by (auto simp: load_config_file_def and_then_Inr_iff split: option.splits node.splits)
    then show ?thesis
      by (elim load_config_Some_E) auto
  qed
qed

lemma run_configs_append:
  "run_configs E (xs @ ys) w =
     (case run_configs E xs w of
        (Inl e, w') \<Rightarrow> (Inl e, w')
      | (Inr u, w') \<Rightarrow> run_configs E ys w')"
  by (induction xs arbitrary: w) (auto split: prod.splits sum.splits)

lemma build_dir_injected:
  "dict_item (derived (with_build_dir tmpdir config)) ''build_dir'' = Inr (TStr tmpdir)"
  by (simp add: with_build_dir_def dict_item_def update_conv')

lemma sphinx_cmd_with_build_dir [simp]:
  "sphinx_cmd (with_build_dir tmpdir config) b = sphinx_cmd config b"
  by (simp add: sphinx_cmd_def with_build_dir_def)

lemma doc_src_with_build_dir [simp]: "doc_src (with_build_dir tmpdir config) = doc_src config"
  by (simp add: with_build_dir_def)

lemma build_with_sphinx_fails:
  assumes "dict_item (derived config) ''build_dir'' = Inr (TStr build_dir)"
    and "run_process E (sphinx_cmd config build_dir) (files w) = Inr proc"
    and "returncode proc \<noteq> 0"
  shows "build_with_sphinx E config w =
           (Inl (CalledProcessError (returncode proc)),
            \<lparr>files = files_after proc,
             runs = runs w @ [(sphinx_cmd config build_dir, files w)]\<rparr>)"
  using assms by (simp add: build_with_sphinx_def str_of_def)

subsection \<open>C7: the classification of a build\<close>




subsection \<open>C6: a manifest without the section\<close>

text \<open>
  C6 says that every manifest lacking the documentation-tool section resolves to
  \<^verbatim>\<open>None\<close> and not to an error, as the docstring of \<^verbatim>\<open>_load_config\<close> does
  ("if there is a [tool.doccer] section, otherwise None is returned"). A manifest whose
  top level holds \<^verbatim>\<open>tool = 5\<close> has no such section, and there
  \<^verbatim>\<open>toml.get("tool", {}).get("doccer")\<close> calls \<^verbatim>\<open>get\<close> on an integer: resolution
  raises the attribute error.
\<close>

theorem tool_not_a_table_raises:
  "load_config ''pyproject.toml''
     [(''project'', TTable [(''name'', TStr ''demo'')]), (''tool'', TInt 5)] =
   Inl AttributeError"
  by (simp add: load_config_def)

text \<open>
  For the manifests without a \<^verbatim>\<open>tool\<close> key, or with a \<^verbatim>\<open>tool\<close> table without
  \<^verbatim>\<open>doccer\<close>, the code does what the sentence says: the manifest resolves to
  \<^verbatim>\<open>None\<close>, reading it from its file gives \<^verbatim>\<open>None\<close>, the hook does exactly what it
  does on the other discovered manifests alone, and no configuration of the list carries
  this manifest's data.
\<close>

theorem no_section_no_configuration:
  assumes "map_of toml ''tool'' = None \<or>
           (\<exists>t. map_of toml ''tool'' = Some (TTable t) \<and> map_of t ''doccer'' = None)"
    and "pyprojects E (files w) = ps1 @ rel # ps2"
    and "node_at (files w) (cwd E @ rel) = Some (File content)"
    and "tomli_load E content = Inr toml"
  shows "load_config p toml = Inr None \<and>
         load_config_file E (files w) rel = Inr None \<and>
         precommit_hook E w =
           (case load_configs_from E (files w) (ps1 @ ps2) of
              Inl e \<Rightarrow> (Inl e, w)
            | Inr configs \<Rightarrow> run_configs E configs w) \<and>
         (\<forall>configs config. load_configs E (files w) = Inr configs \<longrightarrow> config \<in> set configs \<longrightarrow>
            pyproject_data config \<noteq> toml)"
proof (intro conjI allI impI)
  show none: "load_config p toml = Inr None" for p
    by (rule load_config_without_section [OF assms(1)])
  show in_file: "load_config_file E (files w) rel = Inr None"
    by (simp add: load_config_file_def assms(3,4) none)
  show "precommit_hook E w =
           (case load_configs_from E (files w) (ps1 @ ps2) of
              Inl e \<Rightarrow> (Inl e, w)
            | Inr configs \<Rightarrow> run_configs E configs w)"
    by (simp add: precommit_hook_def load_configs_def assms(2) load_configs_from_skip [OF in_file])
next
  fix configs config
  assume "load_configs E (files w) = Inr configs" "config \<in> set configs"
  then obtain t d where
    "map_of (pyproject_data config) ''tool'' = Some (TTable t)" "map_of t ''doccer'' = Some (TTable d)"
    unfolding load_configs_def by (blast dest: load_configs_from_sections)
  with assms(1) show "pyproject_data config \<noteq> toml" by auto
qed

theorem no_section_no_configuration_witness:
  "precommit_hook (example_env (\<lambda>cmd. (0, [])))
     \<lparr>files = example_files ''plain'', runs = []\<rparr> =
   (Inr (), \<lparr>files = example_files ''plain'', runs = []\<rparr>)"
proof -
  let ?E = "example_env (\<lambda>cmd. (0, []))"
  let ?w = "\<lparr>files = example_files ''plain'', runs = []\<rparr>"
  let ?toml = "[(''project'', TTable [(''name'', TStr ''demo'')])]"
  have h1: "map_of ?toml ''tool'' = None \<or>
            (\<exists>t. map_of ?toml ''tool'' = Some (TTable t) \<and> map_of t ''doccer'' = None)"
    by simp
  have h2: "pyprojects ?E (files ?w) = [] @ [''pyproject.toml''] # []"
    by code_simp
  have h3: "node_at (files ?w) (cwd ?E @ [''pyproject.toml'']) = Some (File ''plain'')"
    by (simp add: example_env_def example_files_def node_at_def)
  have h4: "tomli_load ?E ''plain'' = Inr ?toml"
    by (simp add: example_env_def example_parse_def)
  from no_section_no_configuration [OF h1 h2 h3 h4] show ?thesis by simp
qed

subsection \<open>C4: a failing build\<close>

text \<open>
  C4 as stated: a build failure is fatal for its project only and the remaining projects
  are still processed. With two projects in the list and a builder that exits with
  status 2 on the first and would succeed on the second, the hook ends with the error of
  the first and the builder is never run for the second.
\<close>

theorem build_failure_counterexample:
  "map_sum id (map doc_src)
     (load_configs (example_env (\<lambda>cmd. if cmd ! 3 = ''a/docs'' then (2, ''broken'') else (0, ''writing output'')))
        two_projects) = Inr [''a/docs'', ''b/docs''] \<and>
   fst (precommit_hook
          (example_env (\<lambda>cmd. if cmd ! 3 = ''a/docs'' then (2, ''broken'') else (0, ''writing output'')))
          \<lparr>files = two_projects, runs = []\<rparr>) = Inl (CalledProcessError 2) \<and>
   map fst (runs (snd (precommit_hook
          (example_env (\<lambda>cmd. if cmd ! 3 = ''a/docs'' then (2, ''broken'') else (0, ''writing output'')))
          \<lparr>files = two_projects, runs = []\<rparr>))) =
     [[''sphinx-build'', ''-b'', ''rst'', ''a/docs'', ''/tmp/tmpdoc'']]"
  by code_simp

text \<open>
  C4 as amended: when the builder exits with a non-zero status for a project, reached
  with its source directory present or its sample sources just generated, the error
  leaves the loop: the run ends with that error, the temporary directory is removed, the
  projects before it have been processed and the projects after it are not touched,
  whatever they are.
\<close>

theorem build_failure_ends_run:
  fixes E :: "'a collaborators" and config :: doc_config and tmpdir :: string and w1 :: world
  defines "t \<equiv> fs_key (cwd E) (Path tmpdir)"
    and "src \<equiv> fs_key (cwd E) (Path (doc_src config))"
  assumes "run_configs E earlier w = (Inr (), w1)"
    and "mkdtemp E (files w1) = Inr tmpdir"
    and "node_at (AList.update t Dir (files w1)) src \<noteq> None \<and>
           fs2 = AList.update t Dir (files w1) \<or>
         node_at (AList.update t Dir (files w1)) src = None \<and>
           generate_sample_docs_source E (with_build_dir tmpdir config)
             (AList.update t Dir (files w1)) = (Inr (), fs2)"
    and "run_process E (sphinx_cmd config tmpdir) fs2 = Inr proc"
    and "returncode proc \<noteq> 0"
  shows "run_configs E (earlier @ config # later) w =
           (Inl (CalledProcessError (returncode proc)),
            \<lparr>files = rmtree t (files_after proc),
             runs = runs w1 @ [(sphinx_cmd config tmpdir, fs2)]\<rparr>)"
proof -
  let ?c = "with_build_dir tmpdir config"
  let ?w = "w1\<lparr>files := AList.update t Dir (files w1)\<rparr>"
  let ?w2 = "w1\<lparr>files := fs2\<rparr>"
  have ready: "(if node_at (files ?w) (fs_key (cwd E) (Path (doc_src ?c))) \<noteq> None
                then (Inr (), ?w)
                else on_files (generate_sample_docs_source E ?c) ?w) = (Inr (), ?w2)"
    using assms(5) by (auto simp: src_def on_files_def)
  have "build_with_sphinx E ?c ?w2 =
          (Inl (CalledProcessError (returncode proc)),
           \<lparr>files = files_after proc,
            runs = runs ?w2 @ [(sphinx_cmd ?c tmpdir, files ?w2)]\<rparr>)"
    by (rule build_with_sphinx_fails [OF build_dir_injected]) (use assms(6,7) in simp_all)
  with ready have "hook_steps E ?c ?w =
          (Inl (CalledProcessError (returncode proc)),
           \<lparr>files = files_after proc,
            runs = runs w1 @ [(sphinx_cmd config tmpdir, fs2)]\<rparr>)"
    by (simp add: hook_steps_def then_io_def)
  with assms(4) have "process_config E config w1 =
          (Inl (CalledProcessError (returncode proc)),
           \<lparr>files = rmtree t (files_after proc),
            runs = runs w1 @ [(sphinx_cmd config tmpdir, fs2)]\<rparr>)"
    by (simp add: process_config_def t_def)
  with assms(3) show ?thesis
    by (simp add: run_configs_append)
qed

theorem build_failure_ends_run_witness:
  "fst (run_configs
          (example_env (\<lambda>cmd. if cmd ! 3 = ''a/docs'' then (2, ''broken'') else (0, ''writing output'')))
          [\<lparr>pyproject_path = ''a/pyproject.toml'', doc_src = ''a/docs'', doc_dest = TStr ''.'',
            pyproject_data = [], py_modules = TList [], derived = []\<rparr>,
           \<lparr>pyproject_path = ''b/pyproject.toml'', doc_src = ''b/docs'', doc_dest = TStr ''.'',
            pyproject_data = [], py_modules = TList [], derived = []\<rparr>]
          \<lparr>files = two_projects, runs = []\<rparr>) = Inl (CalledProcessError 2) \<and>
   map fst (runs (snd (run_configs
          (example_env (\<lambda>cmd. if cmd ! 3 = ''a/docs'' then (2, ''broken'') else (0, ''writing output'')))
          [\<lparr>pyproject_path = ''a/pyproject.toml'', doc_src = ''a/docs'', doc_dest = TStr ''.'',
            pyproject_data = [], py_modules = TList [], derived = []\<rparr>,
           \<lparr>pyproject_path = ''b/pyproject.toml'', doc_src = ''b/docs'', doc_dest = TStr ''.'',
            pyproject_data = [], py_modules = TList [], derived = []\<rparr>]
          \<lparr>files = two_projects, runs = []\<rparr>))) =
     [[''sphinx-build'', ''-b'', ''rst'', ''a/docs'', ''/tmp/tmpdoc'']]"
proof -
  let ?E = "example_env (\<lambda>cmd. if cmd ! 3 = ''a/docs'' then (2, ''broken'') else (0, ''writing output''))"
  let ?a = "\<lparr>pyproject_path = ''a/pyproject.toml'', doc_src = ''a/docs'', doc_dest = TStr ''.'',
            pyproject_data = [], py_modules = TList [], derived = []\<rparr>"
  let ?b = "\<lparr>pyproject_path = ''b/pyproject.toml'', doc_src = ''b/docs'', doc_dest = TStr ''.'',
            pyproject_data = [], py_modules = TList [], derived = []\<rparr>"
  let ?w = "\<lparr>files = two_projects, runs = []\<rparr>"
  let ?fs = "AList.update (fs_key (cwd ?E) (Path ''/tmp/tmpdoc'')) Dir (files ?w)"
  let ?proc = "\<lparr>returncode = 2, stdout = ''broken'', files_after = ?fs\<rparr>"
  have h1: "run_configs ?E [] ?w = (Inr (), ?w)" by simp
  have h2: "mkdtemp ?E (files ?w) = Inr ''/tmp/tmpdoc''" by (simp add: example_env_def)
  have "node_at ?fs (fs_key (cwd ?E) (Path (doc_src ?a))) \<noteq> None" by code_simp
  then have h3: "node_at ?fs (fs_key (cwd ?E) (Path (doc_src ?a))) \<noteq> None \<and> ?fs = ?fs \<or>
         node_at ?fs (fs_key (cwd ?E) (Path (doc_src ?a))) = None \<and>
           generate_sample_docs_source ?E (with_build_dir ''/tmp/tmpdoc'' ?a) ?fs = (Inr (), ?fs)"
    by blast
  have h4: "run_process ?E (sphinx_cmd ?a ''/tmp/tmpdoc'') ?fs = Inr ?proc"
    by (simp add: example_env_def sphinx_cmd_def)
  have h5: "returncode ?proc \<noteq> 0" by simp
  have "run_configs ?E ([] @ ?a # [?b]) ?w =
          (Inl (CalledProcessError (returncode ?proc)),
           \<lparr>files = rmtree (fs_key (cwd ?E) (Path ''/tmp/tmpdoc'')) (files_after ?proc),
            runs = runs ?w @ [(sphinx_cmd ?a ''/tmp/tmpdoc'', ?fs)]\<rparr>)"
    by (rule build_failure_ends_run [OF h1 h2 h3 h4 h5])
  then show ?thesis by (simp add: sphinx_cmd_def)
qed

subsection \<open>C3: the build-changed flag\<close>

text \<open>
  C3 says the driver records the flag that the build step returns. The loop of
  \<^verbatim>\<open>precommit_hook\<close> calls \<^verbatim>\<open>_build_with_sphinx(config)\<close> as a statement and returns
  \<^verbatim>\<open>None\<close>: on the example repository the build step returns true when the builder
  writes output and false when it does not, and the two runs of the hook end in the same
  result and the same state.
\<close>

theorem build_flag_is_dropped:
  "fst (build_with_sphinx (example_env (\<lambda>cmd. (0, ''writing output... done'')))
          (with_build_dir ''/tmp/tmpdoc''
             \<lparr>pyproject_path = ''pyproject.toml'', doc_src = ''docs/src'', doc_dest = TStr ''.'',
              pyproject_data = [], py_modules = TList [TStr ''demo''], derived = []\<rparr>)
          \<lparr>files = example_files ''doccer'', runs = []\<rparr>) = Inr True \<and>
   fst (build_with_sphinx (example_env (\<lambda>cmd. (0, ''no targets are out of date'')))
          (with_build_dir ''/tmp/tmpdoc''
             \<lparr>pyproject_path = ''pyproject.toml'', doc_src = ''docs/src'', doc_dest = TStr ''.'',
              pyproject_data = [], py_modules = TList [TStr ''demo''], derived = []\<rparr>)
          \<lparr>files = example_files ''doccer'', runs = []\<rparr>) = Inr False \<and>
   fst (precommit_hook (example_env (\<lambda>cmd. (0, ''writing output... done'')))
          \<lparr>files = example_files ''doccer'', runs = []\<rparr>) = Inr () \<and>
   precommit_hook (example_env (\<lambda>cmd. (0, ''writing output... done'')))
          \<lparr>files = example_files ''doccer'', runs = []\<rparr> =
   precommit_hook (example_env (\<lambda>cmd. (0, ''no targets are out of date'')))
          \<lparr>files = example_files ''doccer'', runs = []\<rparr>"
  by code_simp

section \<open>Properties of the file operations\<close>

text \<open>The operations are described by what a lookup finds afterwards.\<close>

lemma node_at_update:
  "k \<noteq> [] \<Longrightarrow> node_at (AList.update k v fs) q = (if q = k then Some v else node_at fs q)"
  by (simp add: node_at_def update_conv')

lemma nonempty_prefix_Cons:
  "(\<exists>zs. zs \<noteq> [] \<and> prefix zs (x # xs) \<and> q = cur @ zs) \<longleftrightarrow>
     q = cur @ [x] \<or> (\<exists>ys. ys \<noteq> [] \<and> prefix ys xs \<and> q = (cur @ [x]) @ ys)"
proof
  assume "\<exists>zs. zs \<noteq> [] \<and> prefix zs (x # xs) \<and> q = cur @ zs"
  then obtain zs where z: "zs \<noteq> []" "prefix zs (x # xs)" "q = cur @ zs" by blast
  then obtain ys where y: "zs = x # ys" "prefix ys xs" by (cases zs) auto
  show "q = cur @ [x] \<or> (\<exists>ys. ys \<noteq> [] \<and> prefix ys xs \<and> q = (cur @ [x]) @ ys)"
  proof (cases "ys = []")
    case True
    with z y show ?thesis by simp
  next
    case False
    with z y have "ys \<noteq> [] \<and> prefix ys xs \<and> q = (cur @ [x]) @ ys" by simp
    then show ?thesis by blast
  qed
next
  assume "q = cur @ [x] \<or> (\<exists>ys. ys \<noteq> [] \<and> prefix ys xs \<and> q = (cur @ [x]) @ ys)"
  then show "\<exists>zs. zs \<noteq> [] \<and> prefix zs (x # xs) \<and> q = cur @ zs"
  proof
    assume "q = cur @ [x]"
    then have "[x] \<noteq> [] \<and> prefix [x] (x # xs) \<and> q = cur @ [x]" by simp
    then show ?thesis by blast
  next
    assume "\<exists>ys. ys \<noteq> [] \<and> prefix ys xs \<and> q = (cur @ [x]) @ ys"
    then obtain ys where "ys \<noteq> []" "prefix ys xs" "q = (cur @ [x]) @ ys" by blast
    then have "x # ys \<noteq> [] \<and> prefix (x # ys) (x # xs) \<and> q = cur @ (x # ys)" by simp
    then show ?thesis by blast
  qed
qed

lemma makedirs_from_ok:
  assumes "\<forall>ys c. ys \<noteq> [] \<longrightarrow> prefix ys xs \<longrightarrow> node_at fs (cur @ ys) \<noteq> Some (File c)"
  shows "\<exists>fs'. makedirs_from fs cur xs = (Inr (), fs') \<and>
           (\<forall>q. node_at fs' q =
              (if \<exists>ys. ys \<noteq> [] \<and> prefix ys xs \<and> q = cur @ ys then Some Dir else node_at fs q))"
  using assms
proof (induction xs arbitrary: fs cur)
  case Nil
  then show ?case by simp
next
  case (Cons x xs)
  let ?k = "cur @ [x]"
  have below: "node_at fs (?k @ ys) \<noteq> Some (File c)" if "ys \<noteq> []" "prefix ys xs" for ys c
  proof -
    from that have "x # ys \<noteq> []" "prefix (x # ys) (x # xs)" by simp_all
    with Cons.prems have "node_at fs (cur @ (x # ys)) \<noteq> Some (File c)" by blast
    then show ?thesis by simp
  qed
  have here: "node_at fs ?k \<noteq> Some (File c)" for c
  proof -
    have "[x] \<noteq> []" "prefix [x] (x # xs)" by simp_all
    with Cons.prems show ?thesis by blast
  qed
  show ?case
  proof (cases "node_at fs ?k")
    case None
    let ?fs1 = "AList.update ?k Dir fs"
    have "\<forall>ys c. ys \<noteq> [] \<longrightarrow> prefix ys xs \<longrightarrow> node_at ?fs1 (?k @ ys) \<noteq> Some (File c)"
      using below by (simp add: node_at_update)
    from Cons.IH [OF this] obtain fs' where
      r: "makedirs_from ?fs1 ?k xs = (Inr (), fs')"
      and n: "\<And>q. node_at fs' q =
              (if \<exists>ys. ys \<noteq> [] \<and> prefix ys xs \<and> q = ?k @ ys then Some Dir else node_at ?fs1 q)"
      by blast
    have "node_at fs' q =
            (if \<exists>ys. ys \<noteq> [] \<and> prefix ys (x # xs) \<and> q = cur @ ys then Some Dir else node_at fs q)" for q
      unfolding nonempty_prefix_Cons n [of q] by (auto simp: node_at_update)
    with r None show ?thesis by simp
  next
    case (Some nd)
    with here have dir: "node_at fs ?k = Some Dir" by (cases nd) auto
    have "\<forall>ys c. ys \<noteq> [] \<longrightarrow> prefix ys xs \<longrightarrow> node_at fs (?k @ ys) \<noteq> Some (File c)"
      using below by blast
    from Cons.IH [OF this] obtain fs' where
      r: "makedirs_from fs ?k xs = (Inr (), fs')"
      and n: "\<And>q. node_at fs' q =
              (if \<exists>ys. ys \<noteq> [] \<and> prefix ys xs \<and> q = ?k @ ys then Some Dir else node_at fs q)"
      by blast
    have "node_at fs' q =
            (if \<exists>ys. ys \<noteq> [] \<and> prefix ys (x # xs) \<and> q = cur @ ys then Some Dir else node_at fs q)" for q
      unfolding nonempty_prefix_Cons n [of q] using dir by auto
    with r dir show ?thesis by simp
  qed
qed

lemma makedirs_ok:
  assumes "\<forall>q c. prefix q p \<longrightarrow> node_at fs q \<noteq> Some (File c)"
  shows "\<exists>fs'. makedirs p fs = (Inr (), fs') \<and>
           (\<forall>q. node_at fs' q = (if prefix q p then Some Dir else node_at fs q))"
proof -
  from assms have "\<forall>ys c. ys \<noteq> [] \<longrightarrow> prefix ys p \<longrightarrow> node_at fs ([] @ ys) \<noteq> Some (File c)"
    by simp
  from makedirs_from_ok [OF this] obtain fs' where
    r: "makedirs_from fs [] p = (Inr (), fs')"
    and n: "\<forall>q. node_at fs' q =
              (if \<exists>ys. ys \<noteq> [] \<and> prefix ys p \<and> q = [] @ ys then Some Dir else node_at fs q)"
    by blast
  have "node_at fs' q = (if prefix q p then Some Dir else node_at fs q)" for q
  proof (cases "q = []")
    case True
    then show ?thesis by (simp add: node_at_def)
  next
    case False
    with n show ?thesis by simp
  qed
  with r show ?thesis by (simp add: makedirs_def)
qed

lemma render_template_ok:
  assumes tmpl: "get_template E name = Inr t"
    and rendered: "render E t config = Inr text"
    and target: "fs_key dest (Path (remove_all ''.jinja2'' name)) = dest @ [fname]"
    and clear: "\<forall>q c. prefix q dest \<longrightarrow> node_at fs q \<noteq> Some (File c)"
    and nodir: "node_at fs (dest @ [fname]) \<noteq> Some Dir"
  shows "\<exists>fs'. render_template E name dest config fs = (Inr (), fs') \<and>
           (\<forall>q. node_at fs' q =
              (if q = dest @ [fname] then Some (File text)
               else if prefix q dest then Some Dir else node_at fs q))"
proof -
  let ?target = "dest @ [fname]"
  from makedirs_ok [OF clear] obtain fs1 where
    m: "makedirs dest fs = (Inr (), fs1)"
    and n1: "\<And>q. node_at fs1 q = (if prefix q dest then Some Dir else node_at fs q)"
    by blast
  have "\<not> prefix ?target dest"
    by (auto simp: prefix_def)
  with n1 [of ?target] nodir have t1: "node_at fs1 ?target \<noteq> Some Dir" by simp
  from n1 [of dest] have d1: "node_at fs1 dest = Some Dir" by simp
  let ?fs2 = "AList.update ?target (File []) fs1"
  from t1 d1 have o: "open_w ?target fs1 = (Inr (), ?fs2)"
    by (auto simp: open_w_def split: option.splits node.splits)
  let ?fs3 = "AList.update ?target (File text) ?fs2"
  have r: "render_template E name dest config fs = (Inr (), ?fs3)"
    by (simp add: render_template_def tmpl rendered target m o write_text_def)
  have "node_at ?fs3 q =
          (if q = ?target then Some (File text)
           else if prefix q dest then Some Dir else node_at fs q)" for q
    by (simp add: node_at_update n1)
  with r show ?thesis by blast
qed

lemma template_targets:
  "fs_key d (Path (remove_all ''.jinja2'' ''README.rst.jinja2'')) = d @ [''README.rst'']"
  "fs_key d (Path (remove_all ''.jinja2'' ''subpage.rst.jinja2'')) = d @ [''subpage.rst'']"
  "fs_key d (Path (remove_all ''.jinja2'' ''conf.py.jinja2'')) = d @ [''conf.py'']"
  "fs_key d (Path (remove_all ''.jinja2'' ''Makefile.jinja2'')) = d @ [''Makefile'']"
  by (simp_all add: fs_key_def Path_def path_root_def)

lemma fs_key_joinpath: "fs_key wd (joinpath p ws) = fs_key wd p @ ws"
  by (simp add: fs_key_def joinpath_def)

lemma runs_build_with_sphinx:
  assumes "dict_item (derived config) ''build_dir'' = Inr (TStr b)"
  shows "runs (snd (build_with_sphinx E config w)) = runs w @ [(sphinx_cmd config b, files w)]"
  using assms
  by (auto simp: build_with_sphinx_def str_of_def then_io_def pure_io_def decode_def
      split: sum.splits prod.splits)

lemma runs_on_files: "runs (snd (on_files m w)) = runs w"
  by (simp add: on_files_def split: prod.splits)

lemma hook_steps_after_scaffold:
  assumes "node_at (files w) (fs_key (cwd E) (Path (doc_src config))) = None"
    and "generate_sample_docs_source E config (files w) = (Inr (), fs')"
    and "dict_item (derived config) ''build_dir'' = Inr (TStr b)"
  shows "runs (snd (hook_steps E config w)) = runs w @ [(sphinx_cmd config b, fs')]"
proof -
  let ?w1 = "w\<lparr>files := fs'\<rparr>"
  from assms(2) have g: "on_files (generate_sample_docs_source E config) w = (Inr (), ?w1)"
    by (simp add: on_files_def)
  obtain r w2 where b: "build_with_sphinx E config ?w1 = (r, w2)" by (cases "build_with_sphinx E config ?w1")
  from runs_build_with_sphinx [OF assms(3), of E ?w1] b
  have rw2: "runs w2 = runs w @ [(sphinx_cmd config b, fs')]" by simp
  have "hook_steps E config w =
          (case r of Inl e \<Rightarrow> (Inl e, w2) | Inr changed \<Rightarrow> on_files (deploy_docs E config) w2)"
    using assms(1) g b by (simp add: hook_steps_def then_io_def split: sum.splits)
  with rw2 show ?thesis
    by (cases r) (simp_all add: runs_on_files)
qed


subsection \<open>C9: the generated sample sources\<close>

text \<open>
  C9: for a configuration whose source directory is absent (nothing exists at or below
  it, and no regular file stands in the way above it), with the four templates found
  and rendered, scaffold generation succeeds and creates exactly four files: the root
  document \<^verbatim>\<open>README.rst\<close>, \<^verbatim>\<open>conf.py\<close> and \<^verbatim>\<open>Makefile\<close> in the source directory and
  the example subpage in its subdirectory \<^verbatim>\<open>docs\<close>, each with the rendered text; the
  two directories exist afterwards, nothing else changes but directories on the way
  that were made, and in the hook the builder is then called on exactly these files.
\<close>

theorem scaffold_creates_four_files:
  fixes E :: "'a collaborators" and config :: doc_config
  defines "s \<equiv> fs_key (cwd E) (Path (doc_src config))"
  assumes absent: "\<forall>p. prefix s p \<longrightarrow> node_at fs p = None"
    and clear: "\<forall>q c. strict_prefix q s \<longrightarrow> node_at fs q \<noteq> Some (File c)"
    and t1: "get_template E ''README.rst.jinja2'' = Inr readme_t"
    and t2: "get_template E ''subpage.rst.jinja2'' = Inr subpage_t"
    and t3: "get_template E ''conf.py.jinja2'' = Inr conf_t"
    and t4: "get_template E ''Makefile.jinja2'' = Inr makefile_t"
    and r1: "render E readme_t config = Inr readme"
    and r2: "render E subpage_t config = Inr subpage"
    and r3: "render E conf_t config = Inr conf"
    and r4: "render E makefile_t config = Inr makefile"
  shows "\<exists>fs'. generate_sample_docs_source E config fs = (Inr (), fs') \<and>
           node_at fs' (s @ [''README.rst'']) = Some (File readme) \<and>
           node_at fs' (s @ [''docs'', ''subpage.rst'']) = Some (File subpage) \<and>
           node_at fs' (s @ [''conf.py'']) = Some (File conf) \<and>
           node_at fs' (s @ [''Makefile'']) = Some (File makefile) \<and>
           node_at fs' s = Some Dir \<and> node_at fs' (s @ [''docs'']) = Some Dir \<and>
           {p. \<exists>c. node_at fs' p = Some (File c)} =
             {p. \<exists>c. node_at fs p = Some (File c)} \<union>
             {s @ [''README.rst''], s @ [''docs'', ''subpage.rst''], s @ [''conf.py''],
              s @ [''Makefile'']} \<and>
           (\<forall>p. node_at fs' p \<noteq> node_at fs p \<longrightarrow>
                 p \<in> {s @ [''README.rst''], s @ [''docs'', ''subpage.rst''], s @ [''conf.py''],
                       s @ [''Makefile'']} \<or> prefix p (s @ [''docs''])) \<and>
           (\<forall>w b. files w = fs \<and> dict_item (derived config) ''build_dir'' = Inr (TStr b) \<longrightarrow>
                 runs (snd (hook_steps E config w)) = runs w @ [(sphinx_cmd config b, fs')])"
proof -
  have none: "node_at fs (s @ ws) = None" for ws
    using absent by simp
  have nofile: "node_at fs q \<noteq> Some (File c)" if "prefix q s" for q c
  proof (cases "q = s")
    case True
    with none [of "[]"] show ?thesis by simp
  next
    case False
    with that have "strict_prefix q s" by (simp add: strict_prefix_def)
    with clear show ?thesis by blast
  qed
  \<comment> \<open>the root document\<close>
  have "\<exists>fs1. render_template E ''README.rst.jinja2'' s config fs = (Inr (), fs1) \<and>
           (\<forall>q. node_at fs1 q =
              (if q = s @ [''README.rst''] then Some (File readme)
               else if prefix q s then Some Dir else node_at fs q))"
    by (rule render_template_ok [OF t1 r1 template_targets(1)]) (use nofile none in auto)
  then obtain fs1 where
    g1: "render_template E ''README.rst.jinja2'' s config fs = (Inr (), fs1)"
    and n1: "\<And>q. node_at fs1 q =
              (if q = s @ [''README.rst''] then Some (File readme)
               else if prefix q s then Some Dir else node_at fs q)"
    by blast
  \<comment> \<open>the example subpage\<close>
  have "\<exists>fs2. render_template E ''subpage.rst.jinja2'' (s @ [''docs'']) config fs1 = (Inr (), fs2) \<and>
           (\<forall>q. node_at fs2 q =
              (if q = (s @ [''docs'']) @ [''subpage.rst''] then Some (File subpage)
               else if prefix q (s @ [''docs'']) then Some Dir else node_at fs1 q))"
    by (rule render_template_ok [OF t2 r2 template_targets(2)]) (use none [of "[''docs'']"] none [of "[''docs'', ''subpage.rst'']"] in \<open>auto simp: n1\<close>)
  then obtain fs2 where
    g2: "render_template E ''subpage.rst.jinja2'' (s @ [''docs'']) config fs1 = (Inr (), fs2)"
    and n2: "\<And>q. node_at fs2 q =
              (if q = s @ [''docs'', ''subpage.rst''] then Some (File subpage)
               else if prefix q (s @ [''docs'']) then Some Dir else node_at fs1 q)"
    by auto
  \<comment> \<open>the build-tool configuration\<close>
  have "\<exists>fs3. render_template E ''conf.py.jinja2'' s config fs2 = (Inr (), fs3) \<and>
           (\<forall>q. node_at fs3 q =
              (if q = s @ [''conf.py''] then Some (File conf)
               else if prefix q s then Some Dir else node_at fs2 q))"
    by (rule render_template_ok [OF t3 r3 template_targets(3)]) (use none [of "[''conf.py'']"] in \<open>auto simp: n1 n2\<close>)
  then obtain fs3 where
    g3: "render_template E ''conf.py.jinja2'' s config fs2 = (Inr (), fs3)"
    and n3: "\<And>q. node_at fs3 q =
              (if q = s @ [''conf.py''] then Some (File conf)
               else if prefix q s then Some Dir else node_at fs2 q)"
    by blast
  \<comment> \<open>the makefile\<close>
  have "\<exists>fs4. render_template E ''Makefile.jinja2'' s config fs3 = (Inr (), fs4) \<and>
           (\<forall>q. node_at fs4 q =
              (if q = s @ [''Makefile''] then Some (File makefile)
               else if prefix q s then Some Dir else node_at fs3 q))"
    by (rule render_template_ok [OF t4 r4 template_targets(4)]) (use none [of "[''Makefile'']"] in \<open>auto simp: n1 n2 n3\<close>)
  then obtain fs4 where
    g4: "render_template E ''Makefile.jinja2'' s config fs3 = (Inr (), fs4)"
    and n4: "\<And>q. node_at fs4 q =
              (if q = s @ [''Makefile''] then Some (File makefile)
               else if prefix q s then Some Dir else node_at fs3 q)"
    by blast
  have gen: "generate_sample_docs_source E config fs = (Inr (), fs4)"
    using g1 g2 g3 g4
    by (simp add: generate_sample_docs_source_def s_def [symmetric] fs_key_joinpath)
  have final: "node_at fs4 q =
      (if q = s @ [''README.rst''] then Some (File readme)
       else if q = s @ [''docs'', ''subpage.rst''] then Some (File subpage)
       else if q = s @ [''conf.py''] then Some (File conf)
       else if q = s @ [''Makefile''] then Some (File makefile)
       else if prefix q (s @ [''docs'']) then Some Dir
       else node_at fs q)" for q
    by (auto simp: n1 n2 n3 n4)
  have files_eq: "{p. \<exists>c. node_at fs4 p = Some (File c)} =
             {p. \<exists>c. node_at fs p = Some (File c)} \<union>
             {s @ [''README.rst''], s @ [''docs'', ''subpage.rst''], s @ [''conf.py''],
              s @ [''Makefile'']}"
  proof (intro set_eqI iffI)
    fix p assume "p \<in> {p. \<exists>c. node_at fs4 p = Some (File c)}"
    then show "p \<in> {p. \<exists>c. node_at fs p = Some (File c)} \<union>
             {s @ [''README.rst''], s @ [''docs'', ''subpage.rst''], s @ [''conf.py''],
              s @ [''Makefile'']}"
      by (auto simp: final split: if_splits)
  next
    fix p assume p: "p \<in> {p. \<exists>c. node_at fs p = Some (File c)} \<union>
             {s @ [''README.rst''], s @ [''docs'', ''subpage.rst''], s @ [''conf.py''],
              s @ [''Makefile'']}"
    show "p \<in> {p. \<exists>c. node_at fs4 p = Some (File c)}"
    proof (cases "\<exists>c. node_at fs p = Some (File c)")
      case True
      then obtain c where c: "node_at fs p = Some (File c)" by blast
      with nofile have "\<not> prefix p s" by blast
      moreover from c none [of "[''docs'']"] have "p \<noteq> s @ [''docs'']" by auto
      moreover from c none have "p \<noteq> s @ ws" for ws by auto
      ultimately show ?thesis using c by (simp add: final)
    next
      case False
      with p show ?thesis by (auto simp: final)
    qed
  qed
  have hook: "runs (snd (hook_steps E config w)) = runs w @ [(sphinx_cmd config b, fs4)]"
    if "files w = fs" "dict_item (derived config) ''build_dir'' = Inr (TStr b)" for w b
  proof (rule hook_steps_after_scaffold)
    from none [of "[]"] that(1) show "node_at (files w) (fs_key (cwd E) (Path (doc_src config))) = None"
      by (simp add: s_def)
    from gen that(1) show "generate_sample_docs_source E config (files w) = (Inr (), fs4)" by simp
    from that(2) show "dict_item (derived config) ''build_dir'' = Inr (TStr b)" .
  qed
  show ?thesis
  proof (intro exI [of _ fs4] conjI allI impI)
    show "generate_sample_docs_source E config fs = (Inr (), fs4)" by (rule gen)
    show "{p. \<exists>c. node_at fs4 p = Some (File c)} =
             {p. \<exists>c. node_at fs p = Some (File c)} \<union>
             {s @ [''README.rst''], s @ [''docs'', ''subpage.rst''], s @ [''conf.py''],
              s @ [''Makefile'']}" by (rule files_eq)
  next
    fix p assume "node_at fs4 p \<noteq> node_at fs p"
    then show "p \<in> {s @ [''README.rst''], s @ [''docs'', ''subpage.rst''], s @ [''conf.py''],
                       s @ [''Makefile'']} \<or> prefix p (s @ [''docs''])"
      by (auto simp: final split: if_splits)
  next
    fix w :: world and b assume "files w = fs \<and> dict_item (derived config) ''build_dir'' = Inr (TStr b)"
    then show "runs (snd (hook_steps E config w)) = runs w @ [(sphinx_cmd config b, fs4)]"
      using hook by blast
  qed (simp_all add: final)
qed

theorem scaffold_creates_four_files_witness:
  "\<exists>fs'. generate_sample_docs_source (example_env (\<lambda>cmd. (0, [])))
            \<lparr>pyproject_path = ''pyproject.toml'', doc_src = ''docs/src'', doc_dest = TStr ''.'',
             pyproject_data = [], py_modules = TList [TStr ''demo''],
             derived = [(''build_dir'', TStr ''/tmp/tmpdoc'')]\<rparr>
            [([''repo''], Dir), ([''repo'', ''pyproject.toml''], File ''doccer'')] = (Inr (), fs') \<and>
          node_at fs' [''repo'', ''docs'', ''src'', ''README.rst''] =
            Some (File ''README.rst.jinja2 for docs/src'') \<and>
          node_at fs' [''repo'', ''docs'', ''src'', ''docs'', ''subpage.rst''] =
            Some (File ''subpage.rst.jinja2 for docs/src'') \<and>
          node_at fs' [''repo'', ''docs'', ''src'', ''conf.py''] =
            Some (File ''conf.py.jinja2 for docs/src'') \<and>
          node_at fs' [''repo'', ''docs'', ''src'', ''Makefile''] =
            Some (File ''Makefile.jinja2 for docs/src'') \<and>
          node_at fs' [''repo'', ''docs'', ''src'', ''docs''] = Some Dir"
proof -
  let ?E = "example_env (\<lambda>cmd. (0, []))"
  let ?c = "\<lparr>pyproject_path = ''pyproject.toml'', doc_src = ''docs/src'', doc_dest = TStr ''.'',
             pyproject_data = [], py_modules = TList [TStr ''demo''],
             derived = [(''build_dir'', TStr ''/tmp/tmpdoc'')]\<rparr>"
  let ?fs = "[([''repo''], Dir), ([''repo'', ''pyproject.toml''], File ''doccer'')]"
  have s: "fs_key (cwd ?E) (Path (doc_src ?c)) = [''repo'', ''docs'', ''src'']"
    by (simp add: example_env_def fs_key_def Path_def path_root_def)
  have absent: "\<forall>p. prefix (fs_key (cwd ?E) (Path (doc_src ?c))) p \<longrightarrow> node_at ?fs p = None"
    unfolding s by (auto simp: node_at_def prefix_def)
  have clear: "\<forall>q c. strict_prefix q (fs_key (cwd ?E) (Path (doc_src ?c))) \<longrightarrow>
                 node_at ?fs q \<noteq> Some (File c)"
    unfolding s by (auto simp: node_at_def strict_prefix_def prefix_def split: if_splits)
  have t: "get_template ?E ''README.rst.jinja2'' = Inr ''README.rst.jinja2''"
    "get_template ?E ''subpage.rst.jinja2'' = Inr ''subpage.rst.jinja2''"
    "get_template ?E ''conf.py.jinja2'' = Inr ''conf.py.jinja2''"
    "get_template ?E ''Makefile.jinja2'' = Inr ''Makefile.jinja2''"
    by (simp_all add: example_env_def)
  have r: "render ?E ''README.rst.jinja2'' ?c = Inr ''README.rst.jinja2 for docs/src''"
    "render ?E ''subpage.rst.jinja2'' ?c = Inr ''subpage.rst.jinja2 for docs/src''"
    "render ?E ''conf.py.jinja2'' ?c = Inr ''conf.py.jinja2 for docs/src''"
    "render ?E ''Makefile.jinja2'' ?c = Inr ''Makefile.jinja2 for docs/src''"
    by (simp_all add: example_env_def)
  from scaffold_creates_four_files [OF absent clear t r, unfolded s]
  obtain fs' where
    "generate_sample_docs_source ?E ?c ?fs = (Inr (), fs')"
    "node_at fs' ([''repo'', ''docs'', ''src''] @ [''README.rst'']) = Some (File ''README.rst.jinja2 for docs/src'')"
    "node_at fs' ([''repo'', ''docs'', ''src''] @ [''docs'', ''subpage.rst'']) = Some (File ''subpage.rst.jinja2 for docs/src'')"
    "node_at fs' ([''repo'', ''docs'', ''src''] @ [''conf.py'']) = Some (File ''conf.py.jinja2 for docs/src'')"
    "node_at fs' ([''repo'', ''docs'', ''src''] @ [''Makefile'']) = Some (File ''Makefile.jinja2 for docs/src'')"
    "node_at fs' ([''repo'', ''docs'', ''src''] @ [''docs'']) = Some Dir"
    by blast
  then show ?thesis
    by (intro exI [of _ fs']) simp
qed

section \<open>Properties of deployment\<close>















subsection \<open>C8: deploying the built files\<close>




end
